theory Spec2Isabelle
  imports Main
begin

section \<open>Errors\<close>

text \<open>
  Go's \<open>error\<close> values. \<open>InitError\<close> stands for whatever error \<open>newToc()\<close> hands to
  \<open>NewEpub\<close>; the other five are the error kinds of the specification's section 7.
\<close>

datatype error =
    InitError string
  | DuplicateNameError string
  | DuplicateIDError string
  | UnknownManifestIDError string
  | SourceUnreadableError string
  | WriteFailedError string

section \<open>Package Document Model\<close>

text \<open>
  Modelled from the spec: the type \<open>pkgdoc\<close> and its methods are not part of
  \<open>epub.go\<close>. Section 3 and 4.2 of the specification give the package document a title,
  a language, an author, a unique identifier, a manifest (insertion order) and a spine
  (insertion order).
\<close>

record manifest_entry =
  me_id :: string
  me_href :: string
  me_media_type :: string
  me_properties :: "string option"

record pkgdoc =
  pkg_title :: string
  pkg_author :: string
  pkg_lang :: string
  pkg_uuid :: string
  manifest :: "manifest_entry list"
  spine :: "string list"

text \<open>
  Modelled from the spec: \<open>newPkgdoc()\<close>. "Initial manifest contains two fixed entries
  (navigation document, and a legacy-compatible navigation-control file) present before
  any user content is added"; ids, hrefs and media types are those the repository's test
  constant \<open>testPkgContentTemplate\<close> expects.
\<close>

definition navManifestEntry :: manifest_entry where
  "navManifestEntry =
     \<lparr>me_id = ''nav'', me_href = ''nav.xhtml'',
      me_media_type = ''application/xhtml+xml'', me_properties = Some ''nav''\<rparr>"

definition ncxManifestEntry :: manifest_entry where
  "ncxManifestEntry =
     \<lparr>me_id = ''ncx'', me_href = ''toc.ncx'',
      me_media_type = ''application/x-dtbncx+xml'', me_properties = None\<rparr>"

definition newPkgdoc :: pkgdoc where
  "newPkgdoc =
     \<lparr>pkg_title = [], pkg_author = [], pkg_lang = [], pkg_uuid = [],
      manifest = [navManifestEntry, ncxManifestEntry], spine = []\<rparr>"

text \<open>
  Modelled from the spec: the four setters of the package document,
  "pure field replacement; no validation beyond non-nil internal state".
\<close>

definition pkgdoc_setAuthor :: "string \<Rightarrow> pkgdoc \<Rightarrow> pkgdoc" where
  "pkgdoc_setAuthor a p = p\<lparr>pkg_author := a\<rparr>"

definition pkgdoc_setLang :: "string \<Rightarrow> pkgdoc \<Rightarrow> pkgdoc" where
  "pkgdoc_setLang l p = p\<lparr>pkg_lang := l\<rparr>"

definition pkgdoc_setTitle :: "string \<Rightarrow> pkgdoc \<Rightarrow> pkgdoc" where
  "pkgdoc_setTitle t p = p\<lparr>pkg_title := t\<rparr>"

definition pkgdoc_setUUID :: "string \<Rightarrow> pkgdoc \<Rightarrow> pkgdoc" where
  "pkgdoc_setUUID u p = p\<lparr>pkg_uuid := u\<rparr>"

section \<open>Navigation Document Model\<close>

text \<open>
  Modelled from the spec: the type \<open>toc\<close> and its methods are not part of \<open>epub.go\<close>.
  Section 4.3 gives the navigation document the operations \<open>setTitle\<close>, \<open>setUUID\<close>
  and \<open>addNavPoint\<close> over one ordered list of (title, href) entries; it has neither a
  language nor an author.
\<close>

record toc =
  toc_title :: string
  toc_uuid :: string
  navpoints :: "(string \<times> string) list"

definition toc_setTitle :: "string \<Rightarrow> toc \<Rightarrow> toc" where
  "toc_setTitle t n = n\<lparr>toc_title := t\<rparr>"

definition toc_setUUID :: "string \<Rightarrow> toc \<Rightarrow> toc" where
  "toc_setUUID u n = n\<lparr>toc_uuid := u\<rparr>"

text \<open>
  Modelled from the spec: the navigation document of a Book that has no content yet, as
  a \<open>newToc()\<close> that succeeds returns it: no title or identifier set and no entries.
\<close>

definition newTocDoc :: toc where
  "newTocDoc = \<lparr>toc_title = [], toc_uuid = [], navpoints = []\<rparr>"

section \<open>The Book: \<open>epub.go\<close>\<close>

text \<open>
  The struct \<open>epub\<close>, field for field. The two pointer fields \<open>pkgdoc *pkgdoc\<close> and
  \<open>toc *toc\<close> are modelled by the documents they point to: each Book owns its two
  documents, nothing else refers to them, and \<open>NewEpub\<close> assigns both before any setter
  can run. The record is extensible, so the operations below also apply to a Book that
  carries further state.
\<close>

record epub =
  author :: string
  lang :: string
  pkgdoc :: pkgdoc
  title :: string
  toc :: toc
  uuid :: string

definition urnUuid :: string where
  "urnUuid = ''urn:uuid:''"

definition Lang :: "'a epub_scheme \<Rightarrow> string" where
  "Lang e = lang e"

definition SetAuthor :: "string \<Rightarrow> 'a epub_scheme \<Rightarrow> 'a epub_scheme" where
  "SetAuthor a e = e\<lparr>pkgdoc := pkgdoc_setAuthor a (pkgdoc e)\<rparr>"

definition SetLang :: "string \<Rightarrow> 'a epub_scheme \<Rightarrow> 'a epub_scheme" where
  "SetLang l e = (let e1 = e\<lparr>lang := l\<rparr> in e1\<lparr>pkgdoc := pkgdoc_setLang l (pkgdoc e1)\<rparr>)"

definition SetTitle :: "string \<Rightarrow> 'a epub_scheme \<Rightarrow> 'a epub_scheme" where
  "SetTitle t e =
     (let e1 = e\<lparr>title := t\<rparr>;
          e2 = e1\<lparr>pkgdoc := pkgdoc_setTitle t (pkgdoc e1)\<rparr>
      in e2\<lparr>toc := toc_setTitle t (toc e2)\<rparr>)"

definition SetUUID :: "string \<Rightarrow> 'a epub_scheme \<Rightarrow> 'a epub_scheme" where
  "SetUUID u e =
     (let e1 = e\<lparr>uuid := u\<rparr>;
          e2 = e1\<lparr>pkgdoc := pkgdoc_setUUID u (pkgdoc e1)\<rparr>
      in e2\<lparr>toc := toc_setUUID u (toc e2)\<rparr>)"

definition Title :: "'a epub_scheme \<Rightarrow> string" where
  "Title e = title e"

definition Uuid :: "'a epub_scheme \<Rightarrow> string" where
  "Uuid e = uuid e"

text \<open>
  \<open>NewEpub(title)\<close> returns the pair \<open>(*epub, error)\<close>; a pointer is \<open>Some\<close> of the Book
  or \<open>None\<close> for nil, an error is \<open>Some\<close> of it or \<open>None\<close> for nil. Two things the
  function calls are outside \<open>epub.go\<close> and enter as parameters: the pair
  \<open>newToc_result\<close> that \<open>newToc()\<close> returned (the navigation document and the error),
  and \<open>newV4\<close>, the text of the random UUID that \<open>uuid.NewV4().String()\<close> produced.
  \<open>&epub{}\<close> starts with every string empty; the navigation document that \<open>newToc()\<close>
  returned is stored before the error is looked at.
\<close>

definition NewEpub :: "toc \<times> error option \<Rightarrow> string \<Rightarrow> string \<Rightarrow> epub option \<times> error option" where
  "NewEpub newToc_result newV4 t =
     (let e = \<lparr>author = [], lang = [], pkgdoc = newPkgdoc, title = [],
               toc = fst newToc_result, uuid = []\<rparr>
      in case snd newToc_result of
           Some err \<Rightarrow> (Some e, Some err)
         | None \<Rightarrow>
             (let e1 = SetLang ''en'' e;
                  e2 = SetTitle t e1;
                  e3 = SetUUID (urnUuid @ newV4) e2
              in (Some e3, None)))"

section \<open>Sequences of setter calls\<close>

text \<open>
  A caller's sequence of \<open>SetAuthor\<close>/\<open>SetLang\<close>/\<open>SetTitle\<close>/\<open>SetUUID\<close> calls, run
  in order on one Book.
\<close>

datatype setter_call =
    CallSetAuthor string
  | CallSetLang string
  | CallSetTitle string
  | CallSetUUID string

fun call :: "setter_call \<Rightarrow> 'a epub_scheme \<Rightarrow> 'a epub_scheme" where
  "call (CallSetAuthor v) e = SetAuthor v e"
| "call (CallSetLang v) e = SetLang v e"
| "call (CallSetTitle v) e = SetTitle v e"
| "call (CallSetUUID v) e = SetUUID v e"

definition calls :: "setter_call list \<Rightarrow> 'a epub_scheme \<Rightarrow> 'a epub_scheme" where
  "calls cs e = fold call cs e"

fun author_arg :: "setter_call \<Rightarrow> string option" where
  "author_arg (CallSetAuthor v) = Some v"
| "author_arg _ = None"

fun lang_arg :: "setter_call \<Rightarrow> string option" where
  "lang_arg (CallSetLang v) = Some v"
| "lang_arg _ = None"

fun title_arg :: "setter_call \<Rightarrow> string option" where
  "title_arg (CallSetTitle v) = Some v"
| "title_arg _ = None"

fun uuid_arg :: "setter_call \<Rightarrow> string option" where
  "uuid_arg (CallSetUUID v) = Some v"
| "uuid_arg _ = None"

text \<open>
  The value a field is expected to hold after the calls \<open>cs\<close>: the argument of the last
  call of that field's setter, or the value \<open>old\<close> the field had before when the setter
  was never called.
\<close>

definition last_set :: "(setter_call \<Rightarrow> string option) \<Rightarrow> setter_call list \<Rightarrow> string \<Rightarrow> string" where
  "last_set arg cs old =
     (case List.map_filter arg cs of [] \<Rightarrow> old | v # vs \<Rightarrow> last (v # vs))"

section \<open>Markup\<close>

text \<open>
  Modelled from the spec: the documents the serializers emit, as element trees. An
  element has a tag, attributes in order and children in order; \<open>Fragment\<close> is markup
  supplied by the caller and passed through as it is.
\<close>

datatype xml =
    Elem string "(string \<times> string) list" "xml list"
  | Text string
  | Fragment string

fun elements_named :: "string \<Rightarrow> xml \<Rightarrow> xml list" where
  "elements_named n (Elem t as cs) =
     (if t = n then [Elem t as cs] else []) @ concat (map (elements_named n) cs)"
| "elements_named n (Text s) = []"
| "elements_named n (Fragment s) = []"

text \<open>
  Modelled from the spec: \<open>pkgdoc.serialize()\<close>, "a namespaced package document
  containing identifier, title, language, optional author/creator, a last-modified
  timestamp, the full manifest (order = insertion order), and the spine (order =
  insertion order) referencing a navigation-document id for its table-of-contents
  linkage". Tags and attributes are those of the repository's test constants
  \<open>testPkgContentTemplate\<close> and \<open>testAuthorTemplate\<close>; the timestamp is the parameter
  \<open>modified\<close>.
\<close>

definition manifest_item :: "manifest_entry \<Rightarrow> xml" where
  "manifest_item m =
     Elem ''item''
       ([(''id'', me_id m), (''href'', me_href m), (''media-type'', me_media_type m)]
        @ (case me_properties m of None \<Rightarrow> [] | Some p \<Rightarrow> [(''properties'', p)]))
       []"

definition spine_itemref :: "string \<Rightarrow> xml" where
  "spine_itemref i = Elem ''itemref'' [(''idref'', i)] []"

definition pkgdoc_metadata :: "string \<Rightarrow> pkgdoc \<Rightarrow> xml list" where
  "pkgdoc_metadata modified p =
     [Elem ''dc:identifier'' [(''id'', ''pub-id'')] [Text (pkg_uuid p)],
      Elem ''dc:title'' [] [Text (pkg_title p)],
      Elem ''dc:language'' [] [Text (pkg_lang p)]]
     @ (if pkg_author p = [] then []
        else [Elem ''dc:creator'' [(''id'', ''creator'')] [Text (pkg_author p)]])
     @ [Elem ''meta'' [(''property'', ''dcterms:modified'')] [Text modified]]"

definition pkgdoc_serialize :: "string \<Rightarrow> pkgdoc \<Rightarrow> xml" where
  "pkgdoc_serialize modified p =
     Elem ''package''
       [(''xmlns'', ''http://www.idpf.org/2007/opf''),
        (''unique-identifier'', ''pub-id''), (''version'', ''3.0'')]
       [Elem ''metadata'' [(''xmlns:dc'', ''http://purl.org/dc/elements/1.1/'')]
          (pkgdoc_metadata modified p),
        Elem ''manifest'' [] (map manifest_item (manifest p)),
        Elem ''spine'' [(''toc'', ''ncx'')] (map spine_itemref (spine p))]"

section \<open>Manifest, spine and navigation entries\<close>

text \<open>
  Modelled from the spec: \<open>addManifestEntry(id, href, mediaType, properties?)\<close>,
  "appends; id must be unique or fails with DuplicateIDError".
\<close>

definition addManifestEntry ::
  "string \<Rightarrow> string \<Rightarrow> string \<Rightarrow> string option \<Rightarrow> pkgdoc \<Rightarrow> error + pkgdoc" where
  "addManifestEntry i href mediaType props p =
     (if i \<in> set (map me_id (manifest p)) then Inl (DuplicateIDError i)
      else Inr (p\<lparr>manifest := manifest p @
             [\<lparr>me_id = i, me_href = href, me_media_type = mediaType,
               me_properties = props\<rparr>]\<rparr>))"

text \<open>
  Modelled from the spec: \<open>addSpineEntry(id)\<close>, "appends; requires the id already be
  present in the manifest, else fails with UnknownManifestIDError".
\<close>

definition addSpineEntry :: "string \<Rightarrow> pkgdoc \<Rightarrow> error + pkgdoc" where
  "addSpineEntry i p =
     (if i \<in> set (map me_id (manifest p)) then Inr (p\<lparr>spine := spine p @ [i]\<rparr>)
      else Inl (UnknownManifestIDError i))"

text \<open>
  Modelled from the spec: the undo of \<open>addManifestEntry\<close>, by which the registry "rolls
  back any already-performed sub-step": the entry appended last is taken off again.
\<close>

definition dropLastManifestEntry :: "pkgdoc \<Rightarrow> pkgdoc" where
  "dropLastManifestEntry p = p\<lparr>manifest := butlast (manifest p)\<rparr>"

text \<open>
  Modelled from the spec: \<open>addNavPoint(title, href)\<close>, which "appends in call order"
  and has no failure.
\<close>

definition addNavPoint :: "string \<Rightarrow> string \<Rightarrow> toc \<Rightarrow> toc" where
  "addNavPoint t href n = n\<lparr>navpoints := navpoints n @ [(t, href)]\<rparr>"

section \<open>Path Allocator\<close>

datatype kind = Image | Section

text \<open>
  Modelled from the spec: the allocator's state, "a set of already-used filenames per
  content kind", and the per-kind sequence counter that "only advances on
  auto-allocation".
\<close>

record allocator =
  used :: "kind \<Rightarrow> string set"
  seq :: "kind \<Rightarrow> nat"

definition newAllocator :: allocator where
  "newAllocator = \<lparr>used = (\<lambda>k. {}), seq = (\<lambda>k. 0)\<rparr>"

text \<open>
  Modelled from the spec: the decimal text of the sequence number, "4-digit
  zero-padded"; a number of more than four digits is written in full.
\<close>

definition digit :: "nat \<Rightarrow> char" where
  "digit d = char_of (48 + d)"

function itoa :: "nat \<Rightarrow> string" where
  "itoa n = (if n < 10 then [digit n] else itoa (n div 10) @ [digit (n mod 10)])"
  by pat_completeness auto
termination
  by (relation "measure (\<lambda>n. n)") auto

declare itoa.simps [simp del]

definition pad4 :: "nat \<Rightarrow> string" where
  "pad4 n = replicate (4 - length (itoa n)) (CHR ''0'') @ itoa n"

definition kind_prefix :: "kind \<Rightarrow> string" where
  "kind_prefix k = (case k of Image \<Rightarrow> ''image'' | Section \<Rightarrow> ''section'')"

text \<open>
  Modelled from the spec: a synthesized name,
  "<kind-prefix><4-digit zero-padded sequence>.<default-extension>".
\<close>

definition auto_name :: "kind \<Rightarrow> string \<Rightarrow> nat \<Rightarrow> string" where
  "auto_name k ext n = kind_prefix k @ pad4 n @ ''.'' @ ext"

text \<open>
  Modelled from the spec: \<open>allocate(kind, requestedName) -> path\<close>. A non-empty
  requested name "is used verbatim if it has not already been used for that kind; reuse
  fails with a DuplicateNameError". An empty one is replaced by the synthesized name of
  the next sequence number ("sequence starts at 1 and increments per kind"), and a
  synthesized name that was already used as an explicit name "must still raise
  DuplicateNameError". A failed allocation changes nothing.
\<close>

definition allocate ::
  "kind \<Rightarrow> string \<Rightarrow> string \<Rightarrow> allocator \<Rightarrow> error + (string \<times> allocator)" where
  "allocate k requestedName ext a =
     (if requestedName \<noteq> [] then
        (if requestedName \<in> used a k then Inl (DuplicateNameError requestedName)
         else Inr (requestedName, a\<lparr>used := (used a)(k := insert requestedName (used a k))\<rparr>))
      else
        (let n = seq a k + 1; name = auto_name k ext n
         in if name \<in> used a k then Inl (DuplicateNameError name)
            else Inr (name, a\<lparr>used := (used a)(k := insert name (used a k)),
                                seq := (seq a)(k := n)\<rparr>)))"

text \<open>
  Modelled from the spec: the undo of \<open>allocate\<close> for the rollback of a failed add: the
  name is given back, and the counter is set back when the name was synthesized.
\<close>

definition release :: "kind \<Rightarrow> string \<Rightarrow> bool \<Rightarrow> allocator \<Rightarrow> allocator" where
  "release k name synthesized a =
     (let a1 = a\<lparr>used := (used a)(k := used a k - {name})\<rparr>
      in if synthesized then a1\<lparr>seq := (seq a1)(k := seq a1 k - 1)\<rparr> else a1)"

section \<open>Content Registry\<close>

datatype payload = Bytes string | Markup xml

text \<open>
  Modelled from the spec: a Content Item, "kind (image | section), raw bytes, resolved
  relative path"; the owning folder follows from the kind.
\<close>

record content_item =
  ci_kind :: kind
  ci_path :: string
  ci_body :: payload

text \<open>
  Modelled from the spec: the Book of the specification is the struct \<open>epub\<close> together
  with the state of the Path Allocator and the Content Registry's stored items, which
  this version of \<open>epub.go\<close> does not have.
\<close>

record book = epub +
  alloc :: allocator
  items :: "content_item list"

definition newBook :: "epub \<Rightarrow> book" where
  "newBook e = epub.extend e \<lparr>alloc = newAllocator, items = []\<rparr>"

text \<open>
  Modelled from the spec: \<open>NewBook(title) -> Book | Error\<close>, the Book that \<open>NewEpub\<close>
  returns, with a new allocator and no content items.
\<close>

definition NewBook :: "toc \<times> error option \<Rightarrow> string \<Rightarrow> string \<Rightarrow> book option \<times> error option" where
  "NewBook newToc_result newV4 t =
     (case NewEpub newToc_result newV4 t of (e, err) \<Rightarrow> (map_option newBook e, err))"

definition contentFolderName :: string where
  "contentFolderName = ''EPUB''"

definition xhtmlFolderName :: string where
  "xhtmlFolderName = ''xhtml''"

definition imageFolderName :: string where
  "imageFolderName = ''images''"

definition kind_folder :: "kind \<Rightarrow> string" where
  "kind_folder k = (case k of Image \<Rightarrow> imageFolderName | Section \<Rightarrow> xhtmlFolderName)"

definition mediaTypeXhtml :: string where
  "mediaTypeXhtml = ''application/xhtml+xml''"

text \<open>
  Modelled from the spec: the "fixed XHTML document template carrying title" around the
  caller's body fragment; its shape is that of the repository's test constant
  \<open>testSectionContentTemplate\<close>.
\<close>

definition sectionDoc :: "string \<Rightarrow> string \<Rightarrow> xml" where
  "sectionDoc t body =
     Elem ''html'' [(''xmlns'', ''http://www.w3.org/1999/xhtml'')]
       [Elem ''head'' [] [Elem ''title'' [] [Text t]],
        Elem ''body'' [] [Fragment body]]"

text \<open>
  Modelled from the spec: \<open>addSection(title, bodyMarkupFragment, requestedFilename) ->
  path\<close>. It "allocates a path via 4.1 with kind=section", wraps the body, and "adds one
  manifest entry, one spine entry, and one navigation entry (title, path)"; when a step
  fails "the registry rolls back any already-performed sub-step before returning the
  error". The manifest id is the allocated name ("the allocator is the sole id source").
  The operation returns the Book as it leaves it, and the error or the path.
\<close>

definition AddSection :: "string \<Rightarrow> string \<Rightarrow> string \<Rightarrow> book \<Rightarrow> book \<times> (error + string)" where
  "AddSection t body requestedFilename b =
     (case allocate Section requestedFilename ''xhtml'' (alloc b) of
        Inl err \<Rightarrow> (b, Inl err)
      | Inr (path, a1) \<Rightarrow>
          (let b1 = b\<lparr>alloc := a1\<rparr> in
           case addManifestEntry path (xhtmlFolderName @ ''/'' @ path) mediaTypeXhtml None
                  (pkgdoc b1) of
             Inl err \<Rightarrow>
               (b1\<lparr>alloc := release Section path (requestedFilename = []) (alloc b1)\<rparr>,
                Inl err)
           | Inr p2 \<Rightarrow>
               (let b2 = b1\<lparr>pkgdoc := p2\<rparr> in
                case addSpineEntry path (pkgdoc b2) of
                  Inl err \<Rightarrow>
                    (let b3 = b2\<lparr>pkgdoc := dropLastManifestEntry (pkgdoc b2)\<rparr>
                     in (b3\<lparr>alloc := release Section path (requestedFilename = []) (alloc b3)\<rparr>,
                         Inl err))
                | Inr p3 \<Rightarrow>
                    (let b3 = b2\<lparr>pkgdoc := p3\<rparr>;
                         b4 = b3\<lparr>toc := addNavPoint t path (toc b3)\<rparr>;
                         b5 = b4\<lparr>items := items b4 @
                                [\<lparr>ci_kind = Section, ci_path = path,
                                  ci_body = Markup (sectionDoc t body)\<rparr>]\<rparr>
                     in (b5, Inr path)))))"

text \<open>
  Modelled from the spec: the external fetch collaborator and the inference of an
  image's extension and media type from its bytes. \<open>fetch source\<close> is \<open>None\<close> when the
  source can be neither read nor retrieved.
\<close>

record collaborator =
  fetch :: "string \<Rightarrow> string option"
  image_ext :: "string \<Rightarrow> string"
  image_media_type :: "string \<Rightarrow> string"

text \<open>
  Modelled from the spec: \<open>addImage(source, requestedFilename) -> path\<close>. It resolves
  the source ("fails with SourceUnreadableError if neither resolves"), "allocates a path
  via 4.1 with kind=image, default extension inferred from content", "adds a manifest
  entry (media-type inferred from the resolved bytes' format) but does not add a spine or
  navigation entry", and "stores raw bytes keyed by path".
\<close>

definition AddImage :: "collaborator \<Rightarrow> string \<Rightarrow> string \<Rightarrow> book \<Rightarrow> book \<times> (error + string)" where
  "AddImage c source requestedFilename b =
     (case fetch c source of
        None \<Rightarrow> (b, Inl (SourceUnreadableError source))
      | Some bytes \<Rightarrow>
          (case allocate Image requestedFilename (image_ext c bytes) (alloc b) of
             Inl err \<Rightarrow> (b, Inl err)
           | Inr (path, a1) \<Rightarrow>
               (let b1 = b\<lparr>alloc := a1\<rparr> in
                case addManifestEntry path (imageFolderName @ ''/'' @ path)
                       (image_media_type c bytes) None (pkgdoc b1) of
                  Inl err \<Rightarrow>
                    (b1\<lparr>alloc := release Image path (requestedFilename = []) (alloc b1)\<rparr>,
                     Inl err)
                | Inr p2 \<Rightarrow>
                    (let b2 = b1\<lparr>pkgdoc := p2\<rparr>;
                         b3 = b2\<lparr>items := items b2 @
                                [\<lparr>ci_kind = Image, ci_path = path, ci_body = Bytes bytes\<rparr>]\<rparr>
                     in (b3, Inr path)))))"

section \<open>Archive Serializer\<close>

text \<open>
  Modelled from the spec: \<open>toc.serialize() -> (navMarkup, ncxMarkup)\<close>, the "one
  authoritative Navigation Entry list with two stateless serialization functions". An
  entry's link is its allocated path under the folder of the sections.
\<close>

definition nav_li :: "string \<times> string \<Rightarrow> xml" where
  "nav_li np =
     Elem ''li'' [] [Elem ''a'' [(''href'', xhtmlFolderName @ ''/'' @ snd np)] [Text (fst np)]]"

definition toc_navMarkup :: "toc \<Rightarrow> xml" where
  "toc_navMarkup n =
     Elem ''html''
       [(''xmlns'', ''http://www.w3.org/1999/xhtml''),
        (''xmlns:epub'', ''http://www.idpf.org/2007/ops'')]
       [Elem ''head'' [] [Elem ''title'' [] [Text (toc_title n)]],
        Elem ''body'' []
          [Elem ''nav'' [(''epub:type'', ''toc'')]
             [Elem ''h1'' [] [Text (toc_title n)],
              Elem ''ol'' [] (map nav_li (navpoints n))]]]"

definition ncx_navPoint :: "string \<times> string \<Rightarrow> xml" where
  "ncx_navPoint np =
     Elem ''navPoint'' []
       [Elem ''navLabel'' [] [Elem ''text'' [] [Text (fst np)]],
        Elem ''content'' [(''src'', xhtmlFolderName @ ''/'' @ snd np)] []]"

definition toc_ncxMarkup :: "toc \<Rightarrow> xml" where
  "toc_ncxMarkup n =
     Elem ''ncx'' [(''xmlns'', ''http://www.daisy.org/z3986/2005/ncx/''), (''version'', ''2005-1'')]
       [Elem ''head'' [] [Elem ''meta'' [(''name'', ''dtb:uid''), (''content'', toc_uuid n)] []],
        Elem ''docTitle'' [] [Elem ''text'' [] [Text (toc_title n)]],
        Elem ''navMap'' [] (map ncx_navPoint (navpoints n))]"

text \<open>
  Modelled from the spec: the "fixed container-descriptor entry (pointing at the package
  document's path)"; its content is the repository's test constant
  \<open>testContainerContents\<close>.
\<close>

definition pkgFilename :: string where
  "pkgFilename = ''package.opf''"

definition containerDoc :: xml where
  "containerDoc =
     Elem ''container''
       [(''version'', ''1.0''), (''xmlns'', ''urn:oasis:names:tc:opendocument:xmlns:container'')]
       [Elem ''rootfiles'' []
          [Elem ''rootfile''
             [(''full-path'', contentFolderName @ ''/'' @ pkgFilename),
              (''media-type'', ''application/oebps-package+xml'')] []]]"

datatype zip_method = Store | Deflate

record zip_entry =
  ze_name :: string
  ze_method :: zip_method
  ze_body :: payload

definition mimetypeFilename :: string where
  "mimetypeFilename = ''mimetype''"

definition mimetypeContents :: string where
  "mimetypeContents = ''application/epub+zip''"

definition item_entry :: "content_item \<Rightarrow> zip_entry" where
  "item_entry ci =
     \<lparr>ze_name = contentFolderName @ ''/'' @ kind_folder (ci_kind ci) @ ''/'' @ ci_path ci,
      ze_method = Deflate, ze_body = ci_body ci\<rparr>"

text \<open>
  Modelled from the spec: the entries of the archive in their physical order. "The very
  first entry in the archive must be a fixed-name entry holding the literal ASCII text
  application/epub+zip, stored with no compression"; the entries after it are the
  container descriptor, the package document, the two navigation documents and every
  Content Item "at the path it was allocated/declared with, nested under the content
  root folder matching its kind".
\<close>

definition archive_entries :: "string \<Rightarrow> book \<Rightarrow> zip_entry list" where
  "archive_entries modified b =
     [\<lparr>ze_name = mimetypeFilename, ze_method = Store, ze_body = Bytes mimetypeContents\<rparr>,
      \<lparr>ze_name = ''META-INF/container.xml'', ze_method = Deflate,
       ze_body = Markup containerDoc\<rparr>,
      \<lparr>ze_name = contentFolderName @ ''/'' @ pkgFilename, ze_method = Deflate,
       ze_body = Markup (pkgdoc_serialize modified (pkgdoc b))\<rparr>,
      \<lparr>ze_name = contentFolderName @ ''/nav.xhtml'', ze_method = Deflate,
       ze_body = Markup (toc_navMarkup (toc b))\<rparr>,
      \<lparr>ze_name = contentFolderName @ ''/toc.ncx'', ze_method = Deflate,
       ze_body = Markup (toc_ncxMarkup (toc b))\<rparr>]
     @ map item_entry (items b)"

text \<open>
  Modelled from the spec: \<open>Write(destinationPath) -> Error?\<close>. The file system maps a
  path to the archive stored there; \<open>writable\<close> tells whether the destination can be
  created and written, and \<open>modified\<close> is the time of the call. "Any I/O failure while
  writing the destination file is fatal and surfaced to the caller (WriteFailedError)",
  and then no archive is put at the destination. The serializer "reads (never mutates)"
  the Book, which is returned as it was.
\<close>

type_synonym filesystem = "string \<rightharpoonup> zip_entry list"

definition Write ::
  "(string \<Rightarrow> bool) \<Rightarrow> string \<Rightarrow> string \<Rightarrow> book \<times> filesystem
     \<Rightarrow> (book \<times> filesystem) \<times> error option" where
  "Write writable modified destinationPath s =
     (case s of (b, fs) \<Rightarrow>
        if writable destinationPath
        then ((b, fs(destinationPath \<mapsto> archive_entries modified b)), None)
        else ((b, fs), Some (WriteFailedError destinationPath)))"

section \<open>Properties of the setters\<close>

lemmas setter_defs =
  SetAuthor_def SetLang_def SetTitle_def SetUUID_def
  pkgdoc_setAuthor_def pkgdoc_setLang_def pkgdoc_setTitle_def pkgdoc_setUUID_def
  toc_setTitle_def toc_setUUID_def

text \<open>
  Claim C8. For every Book and every author string \<open>a\<close>, \<open>SetAuthor(a)\<close> writes \<open>a\<close>
  only into the owned package document: the Book's own author field and the owned
  navigation document are unchanged by the call, and so are the Book's other fields; in
  the package document only the author changes.
\<close>

theorem SetAuthor_writes_package_document_only:
  "author (SetAuthor a e) = author e
   \<and> toc (SetAuthor a e) = toc e
   \<and> lang (SetAuthor a e) = lang e
   \<and> title (SetAuthor a e) = title e
   \<and> uuid (SetAuthor a e) = uuid e
   \<and> pkgdoc (SetAuthor a e) = pkgdoc_setAuthor a (pkgdoc e)
   \<and> pkg_author (pkgdoc (SetAuthor a e)) = a
   \<and> SetAuthor a e = e\<lparr>pkgdoc := (pkgdoc e)\<lparr>pkg_author := a\<rparr>\<rparr>"
  by (simp add: setter_defs)

text \<open>
  Claim C10. Each metadata setter modifies only its own logical field of the Book:
  \<open>SetTitle\<close> leaves the language, author and UUID unchanged; \<open>SetLang\<close> leaves the
  title, author and UUID unchanged; \<open>SetUUID\<close> leaves the title, author and language
  unchanged, as read through \<open>Title\<close>, \<open>Lang\<close> and \<open>Uuid\<close> (the author, which has no
  accessor, is read from the field).
\<close>

theorem setters_leave_other_fields:
  "Lang (SetTitle v e) = Lang e \<and> author (SetTitle v e) = author e
   \<and> Uuid (SetTitle v e) = Uuid e
   \<and> Title (SetLang v e) = Title e \<and> author (SetLang v e) = author e
   \<and> Uuid (SetLang v e) = Uuid e
   \<and> Title (SetUUID v e) = Title e \<and> author (SetUUID v e) = author e
   \<and> Lang (SetUUID v e) = Lang e"
  by (simp add: setter_defs Lang_def Title_def Uuid_def Let_def)

section \<open>Properties of the constructor\<close>

text \<open>
  Claim C9. When the initialization of the navigation document returns an error,
  \<open>NewEpub\<close> returns a Book that is not nil together with that error; the Book is
  partially initialized: it holds the new package document and the navigation document
  that \<open>newToc()\<close> returned, and its title, language and UUID are still empty. When the
  initialization returns no error, \<open>NewEpub\<close> returns a Book and no error.
\<close>

theorem NewEpub_returns_book_with_error:
  "NewEpub (n, Some err) newV4 t =
     (Some \<lparr>author = [], lang = [], pkgdoc = newPkgdoc, title = [], toc = n, uuid = []\<rparr>,
      Some err)
   \<and> (\<exists>e. NewEpub (n, None) newV4 t = (Some e, None))"
  by (simp add: NewEpub_def Let_def)

lemma elements_named_item [simp]:
  "n \<noteq> ''item'' \<Longrightarrow> elements_named n (manifest_item m) = []"
  by (simp add: manifest_item_def)

lemma elements_named_itemref [simp]:
  "n \<noteq> ''itemref'' \<Longrightarrow> elements_named n (spine_itemref i) = []"
  by (simp add: spine_itemref_def)

lemma title_elements:
  "elements_named ''dc:title'' (pkgdoc_serialize modified p)
     = [Elem ''dc:title'' [] [Text (pkg_title p)]]"
  by (simp add: pkgdoc_serialize_def pkgdoc_metadata_def)

lemma language_elements:
  "elements_named ''dc:language'' (pkgdoc_serialize modified p)
     = [Elem ''dc:language'' [] [Text (pkg_lang p)]]"
  by (simp add: pkgdoc_serialize_def pkgdoc_metadata_def)

lemma identifier_elements:
  "elements_named ''dc:identifier'' (pkgdoc_serialize modified p)
     = [Elem ''dc:identifier'' [(''id'', ''pub-id'')] [Text (pkg_uuid p)]]"
  by (simp add: pkgdoc_serialize_def pkgdoc_metadata_def)

lemma creator_elements:
  "elements_named ''dc:creator'' (pkgdoc_serialize modified p)
     = (if pkg_author p = [] then []
        else [Elem ''dc:creator'' [(''id'', ''creator'')] [Text (pkg_author p)]])"
  by (simp add: pkgdoc_serialize_def pkgdoc_metadata_def)

text \<open>
  Claim C3. For every title \<open>t\<close>, \<open>NewEpub\<close> (its navigation document initialized
  without error) returns a Book and no error; \<open>Title()\<close> of that Book is exactly \<open>t\<close>,
  and its serialized package document contains exactly one title element, whose value
  is \<open>t\<close>.
\<close>

theorem NewEpub_title:
  "\<exists>e. NewEpub (n, None) newV4 t = (Some e, None)
     \<and> Title e = t
     \<and> elements_named ''dc:title'' (pkgdoc_serialize modified (pkgdoc e))
         = [Elem ''dc:title'' [] [Text t]]"
  by (simp add: NewEpub_def Let_def setter_defs Title_def title_elements)

text \<open>
  Claim C4. For every title \<open>t\<close>, the Book that \<open>NewEpub\<close> returns (before any
  \<open>SetLang\<close> call) has the language \<open>en\<close>: \<open>Lang()\<close> returns it, the package document
  holds it, and the serialized package document has the one language element \<open>en\<close>.
\<close>

theorem NewEpub_lang:
  "\<exists>e. NewEpub (n, None) newV4 t = (Some e, None)
     \<and> Lang e = ''en''
     \<and> pkg_lang (pkgdoc e) = ''en''
     \<and> elements_named ''dc:language'' (pkgdoc_serialize modified (pkgdoc e))
         = [Elem ''dc:language'' [] [Text ''en'']]"
  by (simp add: NewEpub_def Let_def setter_defs Lang_def language_elements)

section \<open>Sequences of setter calls: last write wins\<close>

lemma calls_snoc: "calls (cs @ [c]) e = call c (calls cs e)"
  by (simp add: calls_def)

lemma map_filter_snoc:
  "List.map_filter f (xs @ [x])
     = List.map_filter f xs @ (case f x of None \<Rightarrow> [] | Some v \<Rightarrow> [v])"
  by (simp add: List.map_filter_def split: option.splits)

lemma last_set_snoc:
  "last_set arg (cs @ [c]) old = (case arg c of None \<Rightarrow> last_set arg cs old | Some v \<Rightarrow> v)"
proof (cases "arg c")
  case None
  then show ?thesis by (simp add: last_set_def map_filter_snoc)
next
  case (Some v)
  have "List.map_filter arg cs @ [v] \<noteq> []" by simp
  then obtain y ys where ys: "List.map_filter arg cs @ [v] = y # ys"
    by (cases "List.map_filter arg cs @ [v]") auto
  have "last (y # ys) = v" using ys by (metis last_snoc)
  then show ?thesis using Some ys by (simp add: last_set_def map_filter_snoc)
qed

lemma calls_fields:
  "title (calls cs e) = last_set title_arg cs (title e)
   \<and> lang (calls cs e) = last_set lang_arg cs (lang e)
   \<and> uuid (calls cs e) = last_set uuid_arg cs (uuid e)
   \<and> author (calls cs e) = author e
   \<and> pkgdoc (calls cs e) =
       (pkgdoc e)\<lparr>pkg_title := last_set title_arg cs (pkg_title (pkgdoc e)),
                  pkg_author := last_set author_arg cs (pkg_author (pkgdoc e)),
                  pkg_lang := last_set lang_arg cs (pkg_lang (pkgdoc e)),
                  pkg_uuid := last_set uuid_arg cs (pkg_uuid (pkgdoc e))\<rparr>
   \<and> toc (calls cs e) =
       (toc e)\<lparr>toc_title := last_set title_arg cs (toc_title (toc e)),
               toc_uuid := last_set uuid_arg cs (toc_uuid (toc e))\<rparr>"
proof (induction cs rule: rev_induct)
  case Nil
  show ?case by (simp add: calls_def last_set_def)
next
  case (snoc c cs)
  then show ?case
    by (cases c) (simp_all add: calls_snoc last_set_snoc setter_defs Let_def)
qed

text \<open>
  Claim C2. For every sequence of \<open>SetTitle\<close>/\<open>SetAuthor\<close>/\<open>SetLang\<close>/\<open>SetUUID\<close> calls
  on a Book, what is observable afterwards reflects only the last value set for each
  field, however often each setter was called: \<open>Title\<close>, \<open>Lang\<close> and \<open>Uuid\<close> return the
  last value set (the value held before when the setter was not called), the serialized
  package document has exactly the title, language, identifier and creator elements of
  the last values, and it is the document of a package whose four fields were replaced
  once by them. A setter is a pure field replacement: called twice, it leaves what its
  second call alone leaves.
\<close>

theorem setters_last_write_wins:
  "Title (calls cs e) = last_set title_arg cs (Title e)
   \<and> Lang (calls cs e) = last_set lang_arg cs (Lang e)
   \<and> Uuid (calls cs e) = last_set uuid_arg cs (Uuid e)
   \<and> elements_named ''dc:title'' (pkgdoc_serialize modified (pkgdoc (calls cs e)))
       = [Elem ''dc:title'' [] [Text (last_set title_arg cs (pkg_title (pkgdoc e)))]]
   \<and> elements_named ''dc:language'' (pkgdoc_serialize modified (pkgdoc (calls cs e)))
       = [Elem ''dc:language'' [] [Text (last_set lang_arg cs (pkg_lang (pkgdoc e)))]]
   \<and> elements_named ''dc:identifier'' (pkgdoc_serialize modified (pkgdoc (calls cs e)))
       = [Elem ''dc:identifier'' [(''id'', ''pub-id'')]
            [Text (last_set uuid_arg cs (pkg_uuid (pkgdoc e)))]]
   \<and> elements_named ''dc:creator'' (pkgdoc_serialize modified (pkgdoc (calls cs e)))
       = (if last_set author_arg cs (pkg_author (pkgdoc e)) = [] then []
          else [Elem ''dc:creator'' [(''id'', ''creator'')]
                  [Text (last_set author_arg cs (pkg_author (pkgdoc e)))]])
   \<and> pkgdoc_serialize modified (pkgdoc (calls cs e)) =
       pkgdoc_serialize modified
         ((pkgdoc e)\<lparr>pkg_title := last_set title_arg cs (pkg_title (pkgdoc e)),
                     pkg_author := last_set author_arg cs (pkg_author (pkgdoc e)),
                     pkg_lang := last_set lang_arg cs (pkg_lang (pkgdoc e)),
                     pkg_uuid := last_set uuid_arg cs (pkg_uuid (pkgdoc e))\<rparr>)
   \<and> SetTitle v (SetTitle w e) = SetTitle v e
   \<and> SetAuthor v (SetAuthor w e) = SetAuthor v e
   \<and> SetLang v (SetLang w e) = SetLang v e
   \<and> SetUUID v (SetUUID w e) = SetUUID v e"
proof -
  note f = calls_fields [of cs e]
  have 1: "Title (calls cs e) = last_set title_arg cs (Title e)
     \<and> Lang (calls cs e) = last_set lang_arg cs (Lang e)
     \<and> Uuid (calls cs e) = last_set uuid_arg cs (Uuid e)"
    using f by (simp add: Title_def Lang_def Uuid_def)
  have 2: "pkgdoc (calls cs e) =
       (pkgdoc e)\<lparr>pkg_title := last_set title_arg cs (pkg_title (pkgdoc e)),
                  pkg_author := last_set author_arg cs (pkg_author (pkgdoc e)),
                  pkg_lang := last_set lang_arg cs (pkg_lang (pkgdoc e)),
                  pkg_uuid := last_set uuid_arg cs (pkg_uuid (pkgdoc e))\<rparr>"
    using f by simp
  have 3: "SetTitle v (SetTitle w e) = SetTitle v e
   \<and> SetAuthor v (SetAuthor w e) = SetAuthor v e
   \<and> SetLang v (SetLang w e) = SetLang v e
   \<and> SetUUID v (SetUUID w e) = SetUUID v e"
    by (simp add: setter_defs Let_def)
  show ?thesis
    using 1 3 unfolding 2
    by (simp add: title_elements language_elements identifier_elements creator_elements)
qed

section \<open>The dual write\<close>

text \<open>
  Claim C1, as the code has it. \<open>SetTitle(v)\<close> and \<open>SetUUID(v)\<close> write \<open>v\<close> to the Book's
  field and to both owned documents. \<open>SetLang(v)\<close> writes \<open>v\<close> to the Book's field and to
  the package document, and \<open>SetAuthor(v)\<close> writes \<open>v\<close> to the package document; the
  navigation document, which has neither a language nor an author, is unchanged by
  both. So after any sequence of setter calls on a Book that \<open>NewEpub\<close> returned without
  error, the Book's title and UUID equal those of the package document and of the
  navigation document, and the Book's language equals the package document's.
\<close>

theorem dual_write_title_uuid_lang:
  "\<exists>e0. NewEpub (n, None) newV4 t = (Some e0, None)
     \<and> title (calls cs e0) = pkg_title (pkgdoc (calls cs e0))
     \<and> title (calls cs e0) = toc_title (toc (calls cs e0))
     \<and> uuid (calls cs e0) = pkg_uuid (pkgdoc (calls cs e0))
     \<and> uuid (calls cs e0) = toc_uuid (toc (calls cs e0))
     \<and> lang (calls cs e0) = pkg_lang (pkgdoc (calls cs e0))
     \<and> title (SetTitle v e) = v \<and> pkg_title (pkgdoc (SetTitle v e)) = v
     \<and> toc_title (toc (SetTitle v e)) = v
     \<and> uuid (SetUUID v e) = v \<and> pkg_uuid (pkgdoc (SetUUID v e)) = v
     \<and> toc_uuid (toc (SetUUID v e)) = v
     \<and> lang (SetLang v e) = v \<and> pkg_lang (pkgdoc (SetLang v e)) = v
     \<and> toc (SetLang v e) = toc e
     \<and> pkg_author (pkgdoc (SetAuthor v e)) = v \<and> toc (SetAuthor v e) = toc e"
proof -
  define e0 where "e0 = SetUUID (urnUuid @ newV4) (SetTitle t (SetLang ''en''
      \<lparr>author = [], lang = [], pkgdoc = newPkgdoc, title = [], toc = n, uuid = []\<rparr>))"
  have new: "NewEpub (n, None) newV4 t = (Some e0, None)"
    by (simp add: NewEpub_def Let_def e0_def)
  have sync0: "title e0 = t" "pkg_title (pkgdoc e0) = t" "toc_title (toc e0) = t"
    "uuid e0 = urnUuid @ newV4" "pkg_uuid (pkgdoc e0) = urnUuid @ newV4"
    "toc_uuid (toc e0) = urnUuid @ newV4" "lang e0 = ''en''" "pkg_lang (pkgdoc e0) = ''en''"
    by (simp_all add: e0_def setter_defs Let_def)
  have sync: "title (calls cs e0) = pkg_title (pkgdoc (calls cs e0))
     \<and> title (calls cs e0) = toc_title (toc (calls cs e0))
     \<and> uuid (calls cs e0) = pkg_uuid (pkgdoc (calls cs e0))
     \<and> uuid (calls cs e0) = toc_uuid (toc (calls cs e0))
     \<and> lang (calls cs e0) = pkg_lang (pkgdoc (calls cs e0))"
    using calls_fields [of cs e0] by (simp add: sync0)
  have each: "title (SetTitle v e) = v \<and> pkg_title (pkgdoc (SetTitle v e)) = v
     \<and> toc_title (toc (SetTitle v e)) = v
     \<and> uuid (SetUUID v e) = v \<and> pkg_uuid (pkgdoc (SetUUID v e)) = v
     \<and> toc_uuid (toc (SetUUID v e)) = v
     \<and> lang (SetLang v e) = v \<and> pkg_lang (pkgdoc (SetLang v e)) = v
     \<and> toc (SetLang v e) = toc e
     \<and> pkg_author (pkgdoc (SetAuthor v e)) = v \<and> toc (SetAuthor v e) = toc e"
    by (simp add: setter_defs Let_def)
  show ?thesis using new sync each by blast
qed

text \<open>
  The claim C1 as stated, that every one of the four setters propagates its value to
  both documents and that the Book's field and the documents' fields never differ, fails
  on a new Book: \<open>SetLang\<close> and \<open>SetAuthor\<close> leave the navigation document as it was, and
  after \<open>SetAuthor\<close> the package document holds the author while the Book's own author
  field is still empty.
\<close>

theorem dual_write_counterexample:
  "(case NewEpub (newTocDoc, None) ''21ed94b4-f2ab-44c8-b99d-4f7792587ad6'' ''My title'' of
      (Some e, None) \<Rightarrow>
        toc (SetLang ''fr'' e) = toc e
        \<and> toc (SetAuthor ''Hingle McCringleberry'' e) = toc e
        \<and> pkg_author (pkgdoc (SetAuthor ''Hingle McCringleberry'' e)) = ''Hingle McCringleberry''
        \<and> author (SetAuthor ''Hingle McCringleberry'' e) = []
    | _ \<Rightarrow> False)"
  by (simp add: NewEpub_def Let_def setter_defs)

section \<open>Path Allocator: undo and synthesized names\<close>

lemma release_allocate:
  "allocate k r ext a = Inr (p, a') \<Longrightarrow> release k p (r = []) a' = a"
  by (auto simp: allocate_def release_def Let_def split: if_splits)

lemma allocate_frame:
  "allocate k r ext a = Inr (p, a') \<Longrightarrow>
     p \<notin> used a k \<and> used a' = (used a)(k := insert p (used a k))
     \<and> seq a' = (if r = [] then (seq a)(k := seq a k + 1) else seq a)
     \<and> p = (if r = [] then auto_name k ext (seq a k + 1) else r)"
  by (auto simp: allocate_def Let_def split: if_splits)

lemma of_char_digit: "d < 10 \<Longrightarrow> (of_char (digit d) :: nat) = 48 + d"
  by (simp add: digit_def)

lemma itoa_value:
  "foldl (\<lambda>a c. 10 * a + (of_char c - 48)) (0::nat) (itoa n) = n"
proof (induction n rule: itoa.induct)
  case (1 n)
  show ?case
  proof (cases "n < 10")
    case True
    then show ?thesis by (simp add: itoa.simps [of n] of_char_digit)
  next
    case False
    then show ?thesis using 1 by (simp add: itoa.simps [of n] of_char_digit)
  qed
qed

lemma zeros_value:
  "foldl (\<lambda>a c. 10 * a + (of_char c - 48)) (0::nat) (replicate k (CHR ''0'') @ s)
     = foldl (\<lambda>a c. 10 * a + (of_char c - 48)) (0::nat) s"
  by (induction k) simp_all

lemma pad4_value:
  "foldl (\<lambda>a c. 10 * a + (of_char c - 48)) (0::nat) (pad4 n) = n"
  by (simp only: pad4_def zeros_value itoa_value)

lemma pad4_inject: "pad4 m = pad4 n \<Longrightarrow> m = n"
  by (metis pad4_value)

lemma auto_name_inject: "auto_name k ext m = auto_name k ext n \<Longrightarrow> m = n"
  by (simp add: auto_name_def pad4_inject)

lemma auto_name_section_1: "auto_name Section ''xhtml'' 1 = ''section0001.xhtml''"
  by code_simp

lemma auto_name_section_2: "auto_name Section ''xhtml'' 2 = ''section0002.xhtml''"
  by code_simp

section \<open>Content Registry: all or nothing\<close>

lemma AddSection_failure:
  "AddSection t body f b = (b', Inl err) \<Longrightarrow> b' = b"
  by (auto simp: AddSection_def Let_def release_allocate addManifestEntry_def addSpineEntry_def dropLastManifestEntry_def
      split: sum.splits prod.splits if_splits)

lemma AddSection_success:
  "AddSection t body f b = (b', Inr path) \<Longrightarrow>
     manifest (pkgdoc b') = manifest (pkgdoc b) @
        [\<lparr>me_id = path, me_href = xhtmlFolderName @ ''/'' @ path,
          me_media_type = mediaTypeXhtml, me_properties = None\<rparr>]
     \<and> spine (pkgdoc b') = spine (pkgdoc b) @ [path]
     \<and> navpoints (toc b') = navpoints (toc b) @ [(t, path)]
     \<and> items b' = items b @ [\<lparr>ci_kind = Section, ci_path = path, ci_body = Markup (sectionDoc t body)\<rparr>]
     \<and> used (alloc b') Section = insert path (used (alloc b) Section)
     \<and> path = (if f = [] then auto_name Section ''xhtml'' (seq (alloc b) Section + 1) else f)"
  by (auto simp: AddSection_def Let_def addManifestEntry_def addSpineEntry_def addNavPoint_def
      split: sum.splits prod.splits if_splits dest!: allocate_frame)

lemma AddImage_failure:
  "AddImage c src f b = (b', Inl err) \<Longrightarrow> b' = b"
  by (auto simp: AddImage_def Let_def release_allocate addManifestEntry_def
      split: sum.splits prod.splits if_splits option.splits)

lemma AddImage_success:
  "AddImage c src f b = (b', Inr path) \<Longrightarrow>
     (\<exists>bytes. fetch c src = Some bytes
        \<and> manifest (pkgdoc b') = manifest (pkgdoc b) @
            [\<lparr>me_id = path, me_href = imageFolderName @ ''/'' @ path,
              me_media_type = image_media_type c bytes, me_properties = None\<rparr>]
        \<and> items b' = items b @ [\<lparr>ci_kind = Image, ci_path = path, ci_body = Bytes bytes\<rparr>])
     \<and> spine (pkgdoc b') = spine (pkgdoc b)
     \<and> toc b' = toc b
     \<and> used (alloc b') Image = insert path (used (alloc b) Image)"
  by (auto simp: AddImage_def Let_def addManifestEntry_def
      split: sum.splits prod.splits if_splits option.splits dest!: allocate_frame)

lemma call_frame:
  "alloc (call c b) = alloc b \<and> items (call c b) = items b
   \<and> manifest (pkgdoc (call c b)) = manifest (pkgdoc b)
   \<and> spine (pkgdoc (call c b)) = spine (pkgdoc b)
   \<and> navpoints (toc (call c b)) = navpoints (toc b)"
  by (cases c) (simp_all add: setter_defs Let_def)

text \<open>
  Claim C5. Every public operation on a Book either fully succeeds or fully fails and
  leaves the prior state as it was. \<open>AddSection\<close> and \<open>AddImage\<close> either return an error
  with the Book exactly as before the call (name, counter, manifest, spine, navigation
  entries, stored items and metadata: whatever a step had already added is rolled
  back), or return the allocated path with every entry of the operation added: for a
  section one manifest entry, one spine entry, one navigation entry and the stored
  document; for an image one manifest entry and the stored bytes, with spine and
  navigation document untouched. \<open>Write\<close> leaves the Book as it was and either puts the
  archive at the destination or returns an error with the file system unchanged. The
  four setters cannot fail, and they leave the allocator, the stored items, the
  manifest, the spine and the navigation entries alone.
\<close>

theorem operations_all_or_nothing:
  "(case AddSection t body f b of
      (b', Inl err) \<Rightarrow> b' = b
    | (b', Inr path) \<Rightarrow>
        manifest (pkgdoc b') = manifest (pkgdoc b) @
          [\<lparr>me_id = path, me_href = xhtmlFolderName @ ''/'' @ path,
            me_media_type = mediaTypeXhtml, me_properties = None\<rparr>]
        \<and> spine (pkgdoc b') = spine (pkgdoc b) @ [path]
        \<and> navpoints (toc b') = navpoints (toc b) @ [(t, path)]
        \<and> items b' = items b @
            [\<lparr>ci_kind = Section, ci_path = path, ci_body = Markup (sectionDoc t body)\<rparr>]
        \<and> used (alloc b') Section = insert path (used (alloc b) Section))
   \<and> (case AddImage c src f b of
        (b', Inl err) \<Rightarrow> b' = b
      | (b', Inr path) \<Rightarrow>
          (\<exists>bytes. fetch c src = Some bytes
             \<and> manifest (pkgdoc b') = manifest (pkgdoc b) @
                 [\<lparr>me_id = path, me_href = imageFolderName @ ''/'' @ path,
                   me_media_type = image_media_type c bytes, me_properties = None\<rparr>]
             \<and> items b' = items b @
                 [\<lparr>ci_kind = Image, ci_path = path, ci_body = Bytes bytes\<rparr>])
          \<and> spine (pkgdoc b') = spine (pkgdoc b)
          \<and> toc b' = toc b
          \<and> used (alloc b') Image = insert path (used (alloc b) Image))
   \<and> (case Write writable modified dest (b, fs) of
        (s', Some err) \<Rightarrow> s' = (b, fs)
      | (s', None) \<Rightarrow> s' = (b, fs(dest \<mapsto> archive_entries modified b)))
   \<and> alloc (call sc b) = alloc b \<and> items (call sc b) = items b
   \<and> manifest (pkgdoc (call sc b)) = manifest (pkgdoc b)
   \<and> spine (pkgdoc (call sc b)) = spine (pkgdoc b)
   \<and> navpoints (toc (call sc b)) = navpoints (toc b)"
proof -
  have 1: "(case AddSection t body f b of
      (b', Inl err) \<Rightarrow> b' = b
    | (b', Inr path) \<Rightarrow>
        manifest (pkgdoc b') = manifest (pkgdoc b) @
          [\<lparr>me_id = path, me_href = xhtmlFolderName @ ''/'' @ path,
            me_media_type = mediaTypeXhtml, me_properties = None\<rparr>]
        \<and> spine (pkgdoc b') = spine (pkgdoc b) @ [path]
        \<and> navpoints (toc b') = navpoints (toc b) @ [(t, path)]
        \<and> items b' = items b @
            [\<lparr>ci_kind = Section, ci_path = path, ci_body = Markup (sectionDoc t body)\<rparr>]
        \<and> used (alloc b') Section = insert path (used (alloc b) Section))"
  proof (cases "AddSection t body f b")
    case (Pair b' r)
    show ?thesis
    proof (cases r)
      case (Inl err)
      with Pair AddSection_failure [of t body f b b' err] show ?thesis by simp
    next
      case (Inr path)
      with Pair AddSection_success [of t body f b b' path] show ?thesis by simp
    qed
  qed
  have 2: "(case AddImage c src f b of
        (b', Inl err) \<Rightarrow> b' = b
      | (b', Inr path) \<Rightarrow>
          (\<exists>bytes. fetch c src = Some bytes
             \<and> manifest (pkgdoc b') = manifest (pkgdoc b) @
                 [\<lparr>me_id = path, me_href = imageFolderName @ ''/'' @ path,
                   me_media_type = image_media_type c bytes, me_properties = None\<rparr>]
             \<and> items b' = items b @
                 [\<lparr>ci_kind = Image, ci_path = path, ci_body = Bytes bytes\<rparr>])
          \<and> spine (pkgdoc b') = spine (pkgdoc b)
          \<and> toc b' = toc b
          \<and> used (alloc b') Image = insert path (used (alloc b) Image))"
  proof (cases "AddImage c src f b")
    case (Pair b' r)
    show ?thesis
    proof (cases r)
      case (Inl err)
      with Pair AddImage_failure [of c src f b b' err] show ?thesis by simp
    next
      case (Inr path)
      with Pair AddImage_success [of c src f b b' path] show ?thesis by simp
    qed
  qed
  have 3: "(case Write writable modified dest (b, fs) of
        (s', Some err) \<Rightarrow> s' = (b, fs)
      | (s', None) \<Rightarrow> s' = (b, fs(dest \<mapsto> archive_entries modified b)))"
    by (simp add: Write_def)
  show ?thesis using 1 2 3 call_frame [of sc b] by blast
qed

theorem operations_all_or_nothing_witness:
  "(case NewBook (newTocDoc, None) ''21ed94b4'' ''My title'' of
      (Some b, None) \<Rightarrow>
        AddSection ''Section 1'' ''<p>x</p>'' ''nav'' b = (b, Inl (DuplicateIDError ''nav''))
        \<and> AddImage \<lparr>fetch = (\<lambda>s. None), image_ext = (\<lambda>s. ''png''), image_media_type = (\<lambda>s. ''image/png'')\<rparr>
             ''testdata/gophercolor16x16.png'' ''testfromfile.png'' b
           = (b, Inl (SourceUnreadableError ''testdata/gophercolor16x16.png''))
        \<and> fst (Write (\<lambda>p. False) ''2016-04-28T19:09:26Z'' ''My EPUB.epub'' (b, Map.empty)) = (b, Map.empty)
    | _ \<Rightarrow> False)"
  using operations_all_or_nothing [where t = "''Section 1''" and body = "''<p>x</p>''"
      and f = "''nav''"
      and b = "newBook (SetUUID (urnUuid @ ''21ed94b4'') (SetTitle ''My title'' (SetLang ''en''
         \<lparr>author = [], lang = [], pkgdoc = newPkgdoc, title = [], toc = newTocDoc, uuid = []\<rparr>)))"
      and c = "\<lparr>fetch = (\<lambda>s. None), image_ext = (\<lambda>s. ''png''),
                image_media_type = (\<lambda>s. ''image/png'')\<rparr>"
      and src = "''testdata/gophercolor16x16.png''" and writable = "\<lambda>p. False"
      and modified = "''2016-04-28T19:09:26Z''" and dest = "''My EPUB.epub''"
      and fs = Map.empty]
  by (simp add: NewBook_def NewEpub_def Let_def newBook_def epub.defs setter_defs AddSection_def AddImage_def Write_def
      allocate_def release_def addManifestEntry_def newAllocator_def newPkgdoc_def navManifestEntry_def ncxManifestEntry_def)

section \<open>Adding a section twice\<close>

lemma AddSection_explicit:
  assumes "f \<noteq> []" "f \<notin> used (alloc b) Section"
    "f \<notin> set (map me_id (manifest (pkgdoc b)))"
  shows "\<exists>b1. AddSection t body f b = (b1, Inr f)"
  using assms
  by (simp add: AddSection_def allocate_def addManifestEntry_def addSpineEntry_def Let_def)

lemma AddSection_reuse:
  assumes "f \<noteq> []" "AddSection t body f b = (b1, Inr p)"
  shows "AddSection t' body' f b1 = (b1, Inl (DuplicateNameError f))"
proof -
  have "f \<in> used (alloc b1) Section"
    using AddSection_success [OF assms(2)] assms(1) by simp
  then show ?thesis using assms(1) by (simp add: AddSection_def allocate_def)
qed

lemma AddSection_auto:
  assumes "auto_name Section ''xhtml'' (seq (alloc b) Section + 1) \<notin> used (alloc b) Section"
    "auto_name Section ''xhtml'' (seq (alloc b) Section + 1) \<notin> set (map me_id (manifest (pkgdoc b)))"
  shows "\<exists>b1. AddSection t body [] b = (b1, Inr (auto_name Section ''xhtml'' (seq (alloc b) Section + 1)))
     \<and> seq (alloc b1) Section = seq (alloc b) Section + 1
     \<and> used (alloc b1) Section = insert (auto_name Section ''xhtml'' (seq (alloc b) Section + 1)) (used (alloc b) Section)
     \<and> set (map me_id (manifest (pkgdoc b1))) = insert (auto_name Section ''xhtml'' (seq (alloc b) Section + 1)) (set (map me_id (manifest (pkgdoc b))))"
  using assms
  by (simp add: AddSection_def allocate_def addManifestEntry_def addSpineEntry_def addNavPoint_def Let_def)

text \<open>
  Claim C6. On a Book in which a non-empty filename \<open>f\<close> is used neither as a section
  name nor as a manifest id, \<open>AddSection\<close> with \<open>f\<close> succeeds and returns \<open>f\<close>, and a
  second \<open>AddSection\<close> with \<open>f\<close> fails with \<open>DuplicateNameError\<close> and changes nothing.
  With an empty filename two calls succeed and return the synthesized names of the next
  two sequence numbers (those names being free), which are distinct and differ only in
  the zero-padded number between \<open>section\<close> and \<open>.xhtml\<close>; the sequence starts at 1, so
  on a Book without sections they are \<open>section0001.xhtml\<close> and \<open>section0002.xhtml\<close>.
\<close>

theorem AddSection_twice:
  "(f \<noteq> [] \<and> f \<notin> used (alloc b) Section \<and> f \<notin> set (map me_id (manifest (pkgdoc b)))
      \<longrightarrow> (\<exists>b1. AddSection t body f b = (b1, Inr f)
                \<and> AddSection t' body' f b1 = (b1, Inl (DuplicateNameError f))))
   \<and> (seq (alloc b) Section = k
       \<and> auto_name Section ''xhtml'' (k + 1) \<notin> used (alloc b) Section
       \<and> auto_name Section ''xhtml'' (k + 1) \<notin> set (map me_id (manifest (pkgdoc b)))
       \<and> auto_name Section ''xhtml'' (k + 2) \<notin> used (alloc b) Section
       \<and> auto_name Section ''xhtml'' (k + 2) \<notin> set (map me_id (manifest (pkgdoc b)))
      \<longrightarrow> (\<exists>b1 b2. AddSection t body [] b = (b1, Inr (auto_name Section ''xhtml'' (k + 1)))
                \<and> AddSection t' body' [] b1 = (b2, Inr (auto_name Section ''xhtml'' (k + 2)))
                \<and> auto_name Section ''xhtml'' (k + 1) \<noteq> auto_name Section ''xhtml'' (k + 2)))
   \<and> auto_name Section ''xhtml'' n = ''section'' @ pad4 n @ ''.xhtml''
   \<and> auto_name Section ''xhtml'' 1 = ''section0001.xhtml''
   \<and> auto_name Section ''xhtml'' 2 = ''section0002.xhtml''"
proof -
  have explicit: "\<exists>b1. AddSection t body f b = (b1, Inr f)
                \<and> AddSection t' body' f b1 = (b1, Inl (DuplicateNameError f))"
    if h: "f \<noteq> []" "f \<notin> used (alloc b) Section" "f \<notin> set (map me_id (manifest (pkgdoc b)))"
  proof -
    obtain b1 where b1: "AddSection t body f b = (b1, Inr f)"
      using AddSection_explicit [OF h] by blast
    show ?thesis using b1 AddSection_reuse [OF h(1) b1] by blast
  qed
  have auto: "\<exists>b1 b2. AddSection t body [] b = (b1, Inr (auto_name Section ''xhtml'' (k + 1)))
                \<and> AddSection t' body' [] b1 = (b2, Inr (auto_name Section ''xhtml'' (k + 2)))
                \<and> auto_name Section ''xhtml'' (k + 1) \<noteq> auto_name Section ''xhtml'' (k + 2)"
    if h: "seq (alloc b) Section = k"
       "auto_name Section ''xhtml'' (k + 1) \<notin> used (alloc b) Section"
       "auto_name Section ''xhtml'' (k + 1) \<notin> set (map me_id (manifest (pkgdoc b)))"
       "auto_name Section ''xhtml'' (k + 2) \<notin> used (alloc b) Section"
       "auto_name Section ''xhtml'' (k + 2) \<notin> set (map me_id (manifest (pkgdoc b)))"
  proof -
    have ne: "auto_name Section ''xhtml'' (k + 1) \<noteq> auto_name Section ''xhtml'' (k + 2)"
      using auto_name_inject [of Section "''xhtml''" "k + 1" "k + 2"] by auto
    obtain b1 where b1: "AddSection t body [] b = (b1, Inr (auto_name Section ''xhtml'' (k + 1)))"
      "seq (alloc b1) Section = k + 1"
      "used (alloc b1) Section = insert (auto_name Section ''xhtml'' (k + 1)) (used (alloc b) Section)"
      "set (map me_id (manifest (pkgdoc b1)))
         = insert (auto_name Section ''xhtml'' (k + 1)) (set (map me_id (manifest (pkgdoc b))))"
      using AddSection_auto [of b t body] h by auto
    have "\<exists>b2. AddSection t' body' [] b1
            = (b2, Inr (auto_name Section ''xhtml'' (seq (alloc b1) Section + 1)))"
      using AddSection_auto [of b1 t' body'] b1 h ne by (auto simp: add.commute)
    then obtain b2 where "AddSection t' body' [] b1 = (b2, Inr (auto_name Section ''xhtml'' (k + 2)))"
      using b1(2) by (auto simp: numeral_2_eq_2)
    then show ?thesis using b1(1) ne by blast
  qed
  have shape: "auto_name Section ''xhtml'' n = ''section'' @ pad4 n @ ''.xhtml''"
    by (simp add: auto_name_def kind_prefix_def)
  show ?thesis
    using explicit auto shape auto_name_section_1 auto_name_section_2 by blast
qed

theorem AddSection_twice_witness:
  "(case NewBook (newTocDoc, None) ''21ed94b4'' ''My title'' of
      (Some b, None) \<Rightarrow>
        (\<exists>b1. AddSection ''Section 1'' ''<p>x</p>'' ''section0001.xhtml'' b
                 = (b1, Inr ''section0001.xhtml'')
            \<and> AddSection ''Section 1'' ''<p>x</p>'' ''section0001.xhtml'' b1
                 = (b1, Inl (DuplicateNameError ''section0001.xhtml'')))
        \<and> (\<exists>b1 b2. AddSection ''Section 1'' ''<p>x</p>'' [] b = (b1, Inr ''section0001.xhtml'')
            \<and> AddSection ''Section 2'' ''<p>y</p>'' [] b1 = (b2, Inr ''section0002.xhtml''))
    | _ \<Rightarrow> False)"
proof -
  define b where "b = newBook (SetUUID (urnUuid @ ''21ed94b4'') (SetTitle ''My title''
      (SetLang ''en'' \<lparr>author = [], lang = [], pkgdoc = newPkgdoc, title = [],
                        toc = newTocDoc, uuid = []\<rparr>)))"
  have new: "NewBook (newTocDoc, None) ''21ed94b4'' ''My title'' = (Some b, None)"
    by (simp add: NewBook_def NewEpub_def Let_def b_def)
  have st: "used (alloc b) Section = {}" "seq (alloc b) Section = 0"
    "set (map me_id (manifest (pkgdoc b))) = {''nav'', ''ncx''}"
    by (simp_all add: b_def newBook_def epub.defs setter_defs Let_def newAllocator_def
        newPkgdoc_def navManifestEntry_def ncxManifestEntry_def)
  note inst = AddSection_twice [where b = b and f = "''section0001.xhtml''" and k = 0
      and t = "''Section 1''" and body = "''<p>x</p>''"]
  have 1: "\<exists>b1. AddSection ''Section 1'' ''<p>x</p>'' ''section0001.xhtml'' b
                 = (b1, Inr ''section0001.xhtml'')
            \<and> AddSection ''Section 1'' ''<p>x</p>'' ''section0001.xhtml'' b1
                 = (b1, Inl (DuplicateNameError ''section0001.xhtml''))"
    using inst [where t' = "''Section 1''" and body' = "''<p>x</p>''"] st by simp
  have n1: "auto_name Section ''xhtml'' (Suc 0) = ''section0001.xhtml''"
    using auto_name_section_1 by simp
  have n2: "auto_name Section ''xhtml'' (Suc (Suc 0)) = ''section0002.xhtml''"
    using auto_name_section_2 by (simp add: numeral_2_eq_2)
  have 2: "\<exists>b1 b2. AddSection ''Section 1'' ''<p>x</p>'' [] b = (b1, Inr ''section0001.xhtml'')
            \<and> AddSection ''Section 2'' ''<p>y</p>'' [] b1 = (b2, Inr ''section0002.xhtml'')"
    using inst [where t' = "''Section 2''" and body' = "''<p>y</p>''"] st
    by (simp add: n1 n2)
  show ?thesis using new 1 2 by simp
qed

section \<open>The archive\<close>

text \<open>
  Claim C7. For every Book on which \<open>Write\<close> succeeds, the first physical entry of the
  archive put at the destination is the entry named \<open>mimetype\<close>, stored with no
  compression, whose content is the literal text \<open>application/epub+zip\<close>.
\<close>

theorem Write_mimetype_first:
  assumes "Write writable modified dest (b, fs) = ((b', fs'), None)"
  shows "\<exists>rest. fs' dest =
           Some (\<lparr>ze_name = ''mimetype'', ze_method = Store,
                  ze_body = Bytes ''application/epub+zip''\<rparr> # rest)"
  using assms
  by (auto simp: Write_def archive_entries_def mimetypeFilename_def mimetypeContents_def split: if_splits)

theorem Write_mimetype_first_witness:
  "(case NewBook (newTocDoc, None) ''21ed94b4'' ''My title'' of
      (Some b, None) \<Rightarrow>
        (case Write (\<lambda>p. True) ''2016-04-28T19:09:26Z'' ''My EPUB.epub'' (b, Map.empty) of
           ((b', fs'), None) \<Rightarrow>
             (\<exists>rest. fs' ''My EPUB.epub'' =
                Some (\<lparr>ze_name = ''mimetype'', ze_method = Store,
                       ze_body = Bytes ''application/epub+zip''\<rparr> # rest))
         | _ \<Rightarrow> False)
    | _ \<Rightarrow> False)"
  using Write_mimetype_first [where writable = "\<lambda>p. True" and modified = "''2016-04-28T19:09:26Z''"
      and dest = "''My EPUB.epub''" and fs = Map.empty
      and b = "newBook (SetUUID (urnUuid @ ''21ed94b4'') (SetTitle ''My title'' (SetLang ''en''
         \<lparr>author = [], lang = [], pkgdoc = newPkgdoc, title = [], toc = newTocDoc, uuid = []\<rparr>)))"]
  by (simp add: NewBook_def NewEpub_def Let_def Write_def)

end
